theory Spec2Isabelle
  imports Complex_Main "HOL-Library.DAList"
begin

section \<open>Conventions of the embedding\<close>

text \<open>
  The TypeScript sources are embedded shallowly.
  \<^item> A TypeScript \<open>number\<close> is a \<^typ>\<open>real\<close>: rounding of IEEE doubles is abstracted away,
    and a division whose divisor is zero (which yields an infinity or NaN in the source) is
    made a separate outcome wherever the source divides. Where rounding decides a discrete
    result (the index that \<open>Math.floor\<close> makes of a product), the operation of the runtime
    is an argument of the model instead.
  \<^item> An optional property \<open>p?: T\<close> is a field of type \<open>T option\<close>; \<open>undefined\<close> is
    \<^const>\<open>None\<close>.
  \<^item> An interface is a record, a union of string literals a datatype.
  \<^item> Record fields keep the property names of the source; where two interfaces share a
    property name (\<open>id\<close>, \<open>name\<close>, \<open>prompt\<close>, \<open>physics\<close>, \<open>meta\<close>, \<open>type\<close>, the
    properties of a session and of its serialisable form, the options of
    \<open>createEnergyUniforms\<close>) or the name is a variable of the proofs (\<open>x\<close>, \<open>y\<close>, \<open>z\<close>),
    the field is prefixed with the interface it belongs to.
  \<^item> A value read from the environment (\<open>Math.random()\<close>, \<open>Date.now()\<close>,
    \<open>new Date().toISOString()\<close>) is an argument of the function that reads it.
\<close>

definition nullish :: "'a option \<Rightarrow> 'a \<Rightarrow> 'a" where
  \<comment> \<open>the operator \<open>x ?? d\<close>\<close>
  "nullish x d = (case x of None \<Rightarrow> d | Some v \<Rightarrow> v)"

section \<open>Cube types (types/cube.ts)\<close>

type_synonym Color3 = "real \<times> real \<times> real"
type_synonym ColorShift3 = "real \<times> real \<times> real"

datatype GradientAxis = axis_x | axis_y | axis_z | radial
datatype NoiseType = perlin | worley | crackle
datatype MaterialType = stone | wood | metal | glass | organic | crystal | liquid
datatype BreakPattern = crumble | shatter | splinter | melt | dissolve
datatype BoundaryMode = boundary_none | smooth | hard

record CubeBase =
  color :: Color3
  roughness :: "real option"
  transparency :: "real option"

record CubeGradient =
  axis :: GradientAxis
  factor :: real
  color_shift :: ColorShift3

record CubeNoise =
  noise_type :: "NoiseType option"
  scale :: "real option"
  octaves :: "real option"
  persistence :: "real option"
  mask :: "string option"

record CubePhysics =
  material :: "MaterialType option"
  density :: "real option"
  break_pattern :: "BreakPattern option"

record CubeMeta =
  meta_name :: "string option"
  tags :: "string list option"
  author :: "string option"
  created :: "string option"
  modified :: "string option"

record CubeBoundary =
  mode :: "BoundaryMode option"
  neighbor_influence :: "real option"

record SpectralCube =
  cube_id :: string
  cube_prompt :: "string option"
  base :: CubeBase
  gradients :: "CubeGradient list option"
  noise :: "CubeNoise option"
  cube_physics :: "CubePhysics option"
  cube_meta :: "CubeMeta option"
  boundary :: "CubeBoundary option"

section \<open>Cube stacks (types/stack.ts)\<close>

datatype StackTransitionType = blend | hard_transition | gradient | noise_transition

datatype StackLayerPosition = bottom | middle | top | single

datatype Easing = linear | smooth_easing | ease_in | ease_out

record StackTransition =
  transition_type :: StackTransitionType
  blendHeight :: "real option"
  easing :: "Easing option"
  blendNoise :: "bool option"
  blendGradients :: "bool option"

record StackLayer =
  layer_id :: string
  layer_name :: "string option"
  position :: StackLayerPosition
  cubeConfig :: SpectralCube
  height :: "real option"
  transitionToNext :: "StackTransition option"

record StackPhysics = CubePhysics +
  isStable :: "bool option"
  totalWeight :: "real option"
  weightDistribution :: "real option"
  structuralIntegrity :: "real option"

record CubeStackConfig =
  stack_id :: string
  stack_prompt :: "string option"
  layers :: "StackLayer list"
  totalHeight :: real
  stack_physics :: "StackPhysics option"
  boundaryMode :: "BoundaryMode option"
  neighborInfluence :: "real option"
  stack_meta :: "CubeMeta option"

definition DEFAULT_STACK_TRANSITION :: StackTransition where
  "DEFAULT_STACK_TRANSITION =
     \<lparr> transition_type = blend,
       blendHeight = Some (2 / 10),
       easing = Some smooth_easing,
       blendNoise = Some True,
       blendGradients = Some True \<rparr>"

definition DEFAULT_STACK_PHYSICS :: StackPhysics where
  "DEFAULT_STACK_PHYSICS =
     \<lparr> material = Some stone,
       density = Some (25 / 10),
       break_pattern = Some crumble,
       isStable = Some True,
       totalWeight = Some 0,
       weightDistribution = Some (5 / 10),
       structuralIntegrity = Some 1 \<rparr>"

definition createStackLayer ::
  "string \<Rightarrow> SpectralCube \<Rightarrow> StackLayerPosition option \<Rightarrow> real option \<Rightarrow> StackLayer" where
  \<comment> \<open>the two defaulted parameters are options: \<open>position = 'middle'\<close>, \<open>height = 1\<close>\<close>
  "createStackLayer i cfg pos h =
     (let position = nullish pos middle; height = nullish h 1 in
      \<lparr> layer_id = i,
        layer_name = None,
        position = position,
        cubeConfig = cfg,
        height = Some height,
        transitionToNext =
          (if position \<noteq> top \<and> position \<noteq> single then Some DEFAULT_STACK_TRANSITION else None) \<rparr>)"

definition layerPosition :: "nat \<Rightarrow> nat \<Rightarrow> StackLayerPosition" where
  \<comment> \<open>the \<open>if\<close> chain in the callback of \<open>layers.map\<close>; the first argument is
      \<open>layers.length\<close>, which is at least 1 whenever the callback runs\<close>
  "layerPosition len index =
     (if len = 1 then single
      else if index = 0 then bottom
      else if int index = int len - 1 then top
      else middle)"

definition positionLayer :: "nat \<Rightarrow> nat \<times> StackLayer \<Rightarrow> StackLayer" where
  \<comment> \<open>the callback of \<open>layers.map\<close>: the spread copy of the layer with two fields replaced\<close>
  "positionLayer len = (\<lambda>(index, layer).
     (let position = layerPosition len index in
      layer \<lparr> position := position,
              transitionToNext :=
                (if position \<noteq> top \<and> position \<noteq> single
                 then Some (nullish (transitionToNext layer) DEFAULT_STACK_TRANSITION)
                 else None) \<rparr>))"

definition layerHeight :: "StackLayer \<Rightarrow> real" where
  \<comment> \<open>\<open>layer.height ?? 1\<close>\<close>
  "layerHeight layer = nullish (height layer) 1"

definition layerDensity :: "StackLayer \<Rightarrow> real" where
  \<comment> \<open>\<open>layer.cubeConfig.physics?.density ?? 2.5\<close>\<close>
  "layerDensity layer =
     nullish (Option.bind (cube_physics (cubeConfig layer)) density) (25 / 10)"

definition createCubeStack ::
  "string \<Rightarrow> StackLayer list \<Rightarrow> string option \<Rightarrow> string \<Rightarrow> CubeStackConfig" where
  \<comment> \<open>the last argument is the value of \<open>new Date().toISOString()\<close> at the call\<close>
  "createCubeStack i ls prompt now =
     (let positionedLayers = map (positionLayer (length ls)) (enumerate 0 ls);
          totalHeight = foldl (\<lambda>sum layer. sum + layerHeight layer) 0 positionedLayers;
          totalWeight = foldl (\<lambda>sum layer. sum + layerDensity layer * layerHeight layer) 0
                          positionedLayers
      in \<lparr> stack_id = i,
           stack_prompt = prompt,
           layers = positionedLayers,
           totalHeight = totalHeight,
           stack_physics = Some (DEFAULT_STACK_PHYSICS \<lparr> totalWeight := Some totalWeight \<rparr>),
           boundaryMode = Some smooth,
           neighborInfluence = Some (5 / 10),
           stack_meta = Some \<lparr> meta_name = None, tags = None, author = None,
                                created = Some now, modified = None \<rparr> \<rparr>)"

definition createDefaultCube :: "string \<Rightarrow> string \<Rightarrow> SpectralCube" where
  \<comment> \<open>\<open>CUBE_DEFAULTS\<close> inlined; the second argument is \<open>new Date().toISOString()\<close>\<close>
  "createDefaultCube i now =
     \<lparr> cube_id = i,
       cube_prompt = None,
       base = \<lparr> color = (5 / 10, 5 / 10, 5 / 10), roughness = Some (5 / 10),
                transparency = Some 1 \<rparr>,
       gradients = Some [],
       noise = Some \<lparr> noise_type = Some perlin, scale = Some 8, octaves = Some 4,
                      persistence = Some (5 / 10), mask = None \<rparr>,
       cube_physics = Some \<lparr> material = Some stone, density = Some (25 / 10),
                             break_pattern = Some crumble \<rparr>,
       cube_meta = Some \<lparr> meta_name = None, tags = None, author = None,
                          created = Some now, modified = None \<rparr>,
       boundary = Some \<lparr> mode = Some smooth, neighbor_influence = Some (5 / 10) \<rparr> \<rparr>"

datatype failure =
    TypeError  \<comment> \<open>a property of \<open>undefined\<close> was read: the source throws\<close>
  | NonFinite  \<comment> \<open>a division by zero took place: from there on the source computes with an
                   infinity or NaN, which the real-number model does not follow\<close>

fun applyEasing :: "Easing option \<Rightarrow> real \<Rightarrow> real" where
  \<comment> \<open>the \<open>switch (transition.easing)\<close> that ends \<open>getLayerBlendFactor\<close>; the last
      equation is its \<open>default\<close> branch, taken when the property is absent\<close>
  "applyEasing (Some linear) transitionProgress = transitionProgress"
| "applyEasing (Some smooth_easing) transitionProgress =
     transitionProgress * transitionProgress * (3 - 2 * transitionProgress)"
| "applyEasing (Some ease_in) transitionProgress = transitionProgress * transitionProgress"
| "applyEasing (Some ease_out) transitionProgress =
     1 - (1 - transitionProgress) * (1 - transitionProgress)"
| "applyEasing None transitionProgress = transitionProgress"

definition getLayerBlendFactor :: "CubeStackConfig \<Rightarrow> int \<Rightarrow> real \<Rightarrow> failure + real" where
  "getLayerBlendFactor stack layerIndex localY =
     (if layerIndex < 0 \<or> int (length (layers stack)) \<le> layerIndex then Inl TypeError
      else
        let layer = layers stack ! nat layerIndex in
        case transitionToNext layer of
          None \<Rightarrow> Inr 0
        | Some transition \<Rightarrow>
            if layerIndex \<ge> int (length (layers stack)) - 1 then Inr 0
            else
              let blendHeight = nullish (blendHeight transition) (2 / 10);
                  layerHeight = nullish (height layer) 1;
                  transitionStart = 1 - blendHeight
              in
              if layerHeight = 0 then Inl NonFinite
              else
                let normalizedY = localY / layerHeight in
                if normalizedY < transitionStart then Inr 0
                else if blendHeight = 0 then Inl NonFinite
                else
                  let transitionProgress = (normalizedY - transitionStart) / blendHeight in
                  Inr (applyEasing (easing transition) transitionProgress))"

text \<open>
  The easing curves in the words of the specification, to compare the code with:
  linear, smoothstep, ease-in and ease-out.
\<close>

fun easingCurve :: "Easing \<Rightarrow> real \<Rightarrow> real" where
  "easingCurve linear t = t"
| "easingCurve smooth_easing t = t\<^sup>2 * (3 - 2 * t)"
| "easingCurve ease_in t = t\<^sup>2"
| "easingCurve ease_out t = 1 - (1 - t)\<^sup>2"

section \<open>FFT cubes (types/cube.ts)\<close>

datatype FFTSize = fft_8 | fft_16 | fft_32

record FFTCubePhysics = CubePhysics +
  coherence_loss :: "real option"
  fracture_threshold :: "real option"

record FFTCoefficient =
  amplitude :: real
  phase :: real
  freqX :: real
  freqY :: real
  freqZ :: real

record FFTChannel =
  dcAmplitude :: real
  dcPhase :: real
  coefficients :: "FFTCoefficient list"

record FFTChannels =
  channels_R :: "FFTChannel option"
  channels_G :: "FFTChannel option"
  channels_B :: "FFTChannel option"
  channels_A :: "FFTChannel option"

record FFTCubeConfig =
  fft_id :: string
  fft_prompt :: "string option"
  is_magical :: bool
  fft_size :: FFTSize
  energy_capacity :: real
  current_energy :: "real option"
  channels :: FFTChannels
  fft_physics :: "FFTCubePhysics option"
  fft_meta :: "CubeMeta option"
  fft_boundary :: "CubeBoundary option"

section \<open>Energy cube uniforms (shaders/energy-cube.ts)\<close>

text \<open>
  \<open>shaders/energy-cube.ts\<close> declares \<open>FFTCoefficient\<close> and \<open>FFTChannel\<close> again, with the
  same properties as \<open>types/cube.ts\<close>; the records above serve both.
\<close>

record EnergyCubeConfig =
  channelR :: "FFTChannel option"
  channelG :: "FFTChannel option"
  channelB :: "FFTChannel option"
  channelA :: "FFTChannel option"
  energyCapacity :: "real option"
  coherenceLoss :: "real option"
  fractureThreshold :: "real option"

datatype VisualizationMode = energy | amplitude_mode | phase_mode

definition ChannelMask_RGBA :: real where
  "ChannelMask_RGBA = 15"

fun visualizationModeToInt :: "VisualizationMode \<Rightarrow> real" where
  "visualizationModeToInt energy = 0"
| "visualizationModeToInt amplitude_mode = 1"
| "visualizationModeToInt phase_mode = 2"

record ChannelUniforms =
  count :: nat
  coeffs :: "real list list"
  freqZ_array :: "real list"

definition channelToUniforms :: "FFTChannel option \<Rightarrow> ChannelUniforms" where
  \<comment> \<open>the \<open>for\<close> loop pushes one entry to each array for \<open>i = 0, \<dots>, 7\<close>\<close>
  "channelToUniforms channel =
     (case channel of
        None \<Rightarrow>
          \<lparr> count = 0,
            coeffs = map (\<lambda>_. [0, 0, 0, 0]) (replicate 8 ()),
            freqZ_array = replicate 8 0 \<rparr>
      | Some ch \<Rightarrow>
          let count = min (length (coefficients ch)) 8 in
          \<lparr> count = count,
            coeffs = map (\<lambda>i. if i < count
                                then (let c = coefficients ch ! i
                                      in [amplitude c, phase c, freqX c, freqY c])
                                else [0, 0, 0, 0]) [0..<8],
            freqZ_array = map (\<lambda>i. if i < count
                                     then (let c = coefficients ch ! i in freqZ c)
                                     else 0) [0..<8] \<rparr>)"

record UniformOptions =
  opt_gridPosition :: "(real \<times> real \<times> real) option"
  opt_time :: "real option"
  opt_visualizationMode :: "VisualizationMode option"
  opt_channelMask :: "real option"
  opt_energyScale :: "real option"
  opt_glowIntensity :: "real option"

definition noOptions :: UniformOptions where
  \<comment> \<open>the default \<open>options = {}\<close>\<close>
  "noOptions = \<lparr> opt_gridPosition = None, opt_time = None, opt_visualizationMode = None,
                  opt_channelMask = None, opt_energyScale = None, opt_glowIntensity = None \<rparr>"

text \<open>The returned object, one field for each key; the wrapper \<open>{ value: v }\<close> is left out.\<close>

record EnergyUniforms =
  uTime :: real
  uEnergyScale :: real
  uGlowIntensity :: real
  uDCAmplitude :: "real list"
  uDCPhase :: "real list"
  uCoeffCountR :: nat
  uCoeffCountG :: nat
  uCoeffCountB :: nat
  uCoeffCountA :: nat
  uCoeffR :: "real list list"
  uCoeffRFreqZ :: "real list"
  uCoeffG :: "real list list"
  uCoeffGFreqZ :: "real list"
  uCoeffB :: "real list list"
  uCoeffBFreqZ :: "real list"
  uCoeffA :: "real list list"
  uCoeffAFreqZ :: "real list"
  uEnergyCapacity :: real
  uCoherenceLoss :: real
  uFractureThreshold :: real
  uVisualizationMode :: real
  uChannelMask :: real
  uLightDirection :: "real list"
  uLightColor :: "real list"
  uAmbientIntensity :: real
  uBoundaryMode :: real
  uNeighborInfluence :: real
  uGridPosition :: "real \<times> real \<times> real"

definition createEnergyUniforms :: "EnergyCubeConfig \<Rightarrow> UniformOptions \<Rightarrow> EnergyUniforms" where
  "createEnergyUniforms config options =
     (let gridPosition = nullish (opt_gridPosition options) (0, 0, 0);
          time = nullish (opt_time options) 0;
          visualizationMode = nullish (opt_visualizationMode options) energy;
          channelMask = nullish (opt_channelMask options) ChannelMask_RGBA;
          energyScale = nullish (opt_energyScale options) 1;
          glowIntensity = nullish (opt_glowIntensity options) (5 / 10);
          rData = channelToUniforms (channelR config);
          gData = channelToUniforms (channelG config);
          bData = channelToUniforms (channelB config);
          aData = channelToUniforms (channelA config)
      in \<lparr> uTime = time,
           uEnergyScale = energyScale,
           uGlowIntensity = glowIntensity,
           uDCAmplitude =
             [nullish (map_option dcAmplitude (channelR config)) (5 / 10),
              nullish (map_option dcAmplitude (channelG config)) (5 / 10),
              nullish (map_option dcAmplitude (channelB config)) (5 / 10),
              nullish (map_option dcAmplitude (channelA config)) 1],
           uDCPhase =
             [nullish (map_option dcPhase (channelR config)) 0,
              nullish (map_option dcPhase (channelG config)) 0,
              nullish (map_option dcPhase (channelB config)) 0,
              nullish (map_option dcPhase (channelA config)) 0],
           uCoeffCountR = count rData,
           uCoeffCountG = count gData,
           uCoeffCountB = count bData,
           uCoeffCountA = count aData,
           uCoeffR = coeffs rData,
           uCoeffRFreqZ = freqZ_array rData,
           uCoeffG = coeffs gData,
           uCoeffGFreqZ = freqZ_array gData,
           uCoeffB = coeffs bData,
           uCoeffBFreqZ = freqZ_array bData,
           uCoeffA = coeffs aData,
           uCoeffAFreqZ = freqZ_array aData,
           uEnergyCapacity = nullish (energyCapacity config) 100,
           uCoherenceLoss = nullish (coherenceLoss config) 0,
           uFractureThreshold = nullish (fractureThreshold config) 0,
           uVisualizationMode = visualizationModeToInt visualizationMode,
           uChannelMask = channelMask,
           uLightDirection = [1, 1, 1],
           uLightColor = [1, 1, 1],
           uAmbientIntensity = 4 / 10,
           uBoundaryMode = 1,
           uNeighborInfluence = 5 / 10,
           uGridPosition = gridPosition \<rparr>)"

text \<open>
  The four colour channels, to state properties of \<open>createEnergyUniforms\<close> once for all of
  them: the channel of the configuration, and the three uniforms computed from it.
\<close>

datatype Channel = R | G | B | A

fun configChannel :: "Channel \<Rightarrow> EnergyCubeConfig \<Rightarrow> FFTChannel option" where
  "configChannel R = channelR"
| "configChannel G = channelG"
| "configChannel B = channelB"
| "configChannel A = channelA"

fun uCoeffCount :: "Channel \<Rightarrow> EnergyUniforms \<Rightarrow> nat" where
  "uCoeffCount R = uCoeffCountR"
| "uCoeffCount G = uCoeffCountG"
| "uCoeffCount B = uCoeffCountB"
| "uCoeffCount A = uCoeffCountA"

fun uCoeff :: "Channel \<Rightarrow> EnergyUniforms \<Rightarrow> real list list" where
  "uCoeff R = uCoeffR"
| "uCoeff G = uCoeffG"
| "uCoeff B = uCoeffB"
| "uCoeff A = uCoeffA"

fun uCoeffFreqZ :: "Channel \<Rightarrow> EnergyUniforms \<Rightarrow> real list" where
  "uCoeffFreqZ R = uCoeffRFreqZ"
| "uCoeffFreqZ G = uCoeffGFreqZ"
| "uCoeffFreqZ B = uCoeffBFreqZ"
| "uCoeffFreqZ A = uCoeffAFreqZ"

section \<open>Collaboration (types/collaboration.ts)\<close>

datatype ParticipantRole = owner | editor | viewer
datatype ParticipantStatus = online | away | offline

datatype ActionType =
    cube_create | cube_update | cube_delete | cube_select
  | cursor_move | participant_join | participant_leave | session_settings_update

record CursorPosition =
  cursor_x :: real
  cursor_y :: real
  cursor_z :: real
  selectedCubeId :: "string option"

record Participant =
  participant_id :: string
  participant_name :: string
  participant_color :: string
  role :: ParticipantRole
  status :: ParticipantStatus
  cursor :: "CursorPosition option"
  avatarUrl :: "string option"
  joinedAt :: string
  lastActiveAt :: string

record SessionSettings =
  settings_name :: string
  isOpen :: bool
  maxParticipants :: real
  allowRoleRequests :: bool
  autoSaveInterval :: real

subsection \<open>The built-in \<open>Map\<close>\<close>

text \<open>
  A JavaScript \<open>Map\<close> holds its entries in insertion order and holds no key twice. It is
  modelled by the type \<^typ>\<open>('k, 'v) alist\<close> of association lists with distinct keys.
  \<open>map.set(k, v)\<close> is \<^const>\<open>DAList.update\<close>: the value of a key already present is
  replaced where the key stands, a new key is added at the end.
\<close>

definition entries :: "('k, 'v) alist \<Rightarrow> ('k \<times> 'v) list" where
  \<comment> \<open>\<open>Array.from(map.entries())\<close>\<close>
  "entries m = DAList.impl_of m"

definition newMap :: "('k \<times> 'v) list \<Rightarrow> ('k, 'v) alist" where
  \<comment> \<open>\<open>new Map(iterable)\<close>: the pairs are set one after the other, starting from the
      empty map\<close>
  "newMap es = foldl (\<lambda>m (k, v). DAList.update k v m) DAList.empty es"

type_synonym Cube = "SpectralCube + FFTCubeConfig"

record Session =
  session_id :: string
  code :: string
  settings :: SessionSettings
  ownerId :: string
  participants :: "(string, Participant) alist"
  cubes :: "(string, Cube) alist"
  createdAt :: string
  modifiedAt :: string

record SerializableSession =
  ser_id :: string
  ser_code :: string
  ser_settings :: SessionSettings
  ser_ownerId :: string
  ser_participants :: "(string \<times> Participant) list"
  ser_cubes :: "(string \<times> Cube) list"
  ser_createdAt :: string
  ser_modifiedAt :: string

definition serializeSession :: "Session \<Rightarrow> SerializableSession" where
  "serializeSession session =
     \<lparr> ser_id = session_id session,
       ser_code = code session,
       ser_settings = settings session,
       ser_ownerId = ownerId session,
       ser_participants = entries (participants session),
       ser_cubes = entries (cubes session),
       ser_createdAt = createdAt session,
       ser_modifiedAt = modifiedAt session \<rparr>"

definition deserializeSession :: "SerializableSession \<Rightarrow> Session" where
  "deserializeSession serializable =
     \<lparr> session_id = ser_id serializable,
       code = ser_code serializable,
       settings = ser_settings serializable,
       ownerId = ser_ownerId serializable,
       participants = newMap (ser_participants serializable),
       cubes = newMap (ser_cubes serializable),
       createdAt = ser_createdAt serializable,
       modifiedAt = ser_modifiedAt serializable \<rparr>"

subsection \<open>Actions and type guards\<close>

text \<open>
  Every member of the union \<open>CollaborativeAction\<close> extends \<open>BaseAction\<close> and adds a
  \<open>payload\<close> whose shape depends on the member; the guards read the property \<open>type\<close>
  only, so the payload is a type parameter.
\<close>

record 'p CollaborativeAction =
  action_id :: string
  action_type :: ActionType
  participantId :: string
  timestamp :: string
  sessionId :: string
  payload :: 'p

definition array_includes :: "'a list \<Rightarrow> 'a \<Rightarrow> bool" where
  \<comment> \<open>\<open>array.includes(v)\<close>\<close>
  "array_includes xs v = List.member xs v"

definition isCubeModificationAction :: "'p CollaborativeAction \<Rightarrow> bool" where
  "isCubeModificationAction action =
     array_includes [cube_create, cube_update, cube_delete] (action_type action)"

definition isPresenceAction :: "'p CollaborativeAction \<Rightarrow> bool" where
  "isPresenceAction action =
     array_includes [cursor_move, participant_join, participant_leave] (action_type action)"

subsection \<open>Generators\<close>

text \<open>
  The generators read \<open>Math.random()\<close> and \<open>Date.now()\<close>. The values these calls return
  are arguments of the model: a draw is a real number, which the runtime takes from
  \<open>[0, 1)\<close>; the clock is a number of milliseconds.

  The index \<open>Math.floor(Math.random() * xs.length)\<close> is a discrete result, and the
  rounding of the product of doubles decides it: at the draw \<open>0.8999999999999999\<close> the
  double product with 10 is 9, the real product is below 9. The multiplication of the
  runtime is therefore an argument too, \<open>multiply\<close>, and nothing is assumed of it.
\<close>

definition randomIndex :: "(real \<Rightarrow> real \<Rightarrow> real) \<Rightarrow> real \<Rightarrow> 'a list \<Rightarrow> int" where
  \<comment> \<open>\<open>Math.floor(random * xs.length)\<close>, with the product of the runtime\<close>
  "randomIndex multiply random xs = \<lfloor>multiply random (real (length xs))\<rfloor>"

definition colors :: "string list" where
  "colors =
     [''#FF6B6B'', ''#4ECDC4'', ''#45B7D1'', ''#96CEB4'', ''#FFEAA7'',
      ''#DDA0DD'', ''#98D8C8'', ''#F7DC6F'', ''#BB8FCE'', ''#85C1E9'']"

definition elementAt :: "'a list \<Rightarrow> int \<Rightarrow> 'a option" where
  \<comment> \<open>\<open>xs[i]\<close> for an integer \<open>i\<close>: \<open>undefined\<close> out of range\<close>
  "elementAt xs i = (if 0 \<le> i \<and> i < int (length xs) then Some (xs ! nat i) else None)"

definition generateParticipantColor :: "(real \<Rightarrow> real \<Rightarrow> real) \<Rightarrow> real \<Rightarrow> string option" where
  \<comment> \<open>the second argument is the value of \<open>Math.random()\<close>\<close>
  "generateParticipantColor multiply random = elementAt colors (randomIndex multiply random colors)"

definition chars :: string where
  "chars = ''ABCDEFGHJKMNPQRSTUVWXYZ23456789''"

definition appended :: "char option \<Rightarrow> string" where
  \<comment> \<open>what \<open>code += c\<close> appends: the character, or the text of \<open>undefined\<close>\<close>
  "appended c = (case c of Some ch \<Rightarrow> [ch] | None \<Rightarrow> ''undefined'')"

definition generateSessionCode :: "(real \<Rightarrow> real \<Rightarrow> real) \<Rightarrow> (nat \<Rightarrow> real) \<Rightarrow> string" where
  \<comment> \<open>the second argument gives the value of the \<open>i\<close>-th call of \<open>Math.random()\<close>, one
      call for each round of the loop\<close>
  "generateSessionCode multiply random =
     foldl (\<lambda>code i. code @ appended (elementAt chars (randomIndex multiply (random i) chars)))
       [] [0..<6]"

definition substring :: "nat \<Rightarrow> nat \<Rightarrow> string \<Rightarrow> string" where
  \<comment> \<open>\<open>s.substring(start, stop)\<close> for \<open>start \<le> stop\<close>\<close>
  "substring start stop s = take (stop - start) (drop start s)"

fun decimal :: "nat \<Rightarrow> string" where
  "decimal n =
     (if n < 10 then [''0123456789'' ! n] else decimal (n div 10) @ [''0123456789'' ! (n mod 10)])"

declare decimal.simps [simp del]

definition numberToString :: "int \<Rightarrow> string" where
  \<comment> \<open>the text of an integer in a template literal: decimal digits, for an integer below
      \<open>10\<^sup>2\<^sup>1\<close> in absolute value as every time value is\<close>
  "numberToString n = (if n < 0 then CHR ''-'' # decimal (nat (- n)) else decimal (nat n))"

definition generateActionId :: "int \<Rightarrow> string \<Rightarrow> string" where
  \<comment> \<open>the arguments are the value of \<open>Date.now()\<close> and the text
      \<open>Math.random().toString(36)\<close> that the runtime makes of the draw\<close>
  "generateActionId now random36 = numberToString now @ ''-'' @ substring 2 9 random36"

section \<open>Layers of a built stack\<close>

lemma positionLayer_height [simp]: "height (positionLayer n p) = height (snd p)"
  by (cases p) (simp add: positionLayer_def Let_def)

lemma positionLayer_cubeConfig [simp]: "cubeConfig (positionLayer n p) = cubeConfig (snd p)"
  by (cases p) (simp add: positionLayer_def Let_def)

lemma layerHeight_positionLayer [simp]: "layerHeight (positionLayer n p) = layerHeight (snd p)"
  by (simp add: layerHeight_def)

lemma layerDensity_positionLayer [simp]: "layerDensity (positionLayer n p) = layerDensity (snd p)"
  by (simp add: layerDensity_def)

lemma foldl_add_sum_list:
  fixes f :: "'a \<Rightarrow> real"
  shows "foldl (\<lambda>s x. s + f x) a xs = a + sum_list (map f xs)"
  by (induction xs arbitrary: a) (simp_all add: algebra_simps)

lemma sum_list_positioned:
  fixes f :: "StackLayer \<Rightarrow> real"
  assumes "\<And>p. f (positionLayer n p) = g (snd p)"
  shows "sum_list (map f (map (positionLayer n) (enumerate 0 ls))) = sum_list (map g ls)"
proof -
  have "map f (map (positionLayer n) (enumerate 0 ls)) = map (\<lambda>p. g (snd p)) (enumerate 0 ls)"
    by (simp add: assms comp_def)
  also have "\<dots> = map g (map snd (enumerate 0 ls))"
    by (simp only: map_map comp_def)
  finally show ?thesis by simp
qed

text \<open>
  Claim C3. The total height of the stack returned by \<open>createCubeStack\<close> is the sum of the
  heights of the layers it was given, a missing height counting as 1.
\<close>

theorem createCubeStack_totalHeight:
  "totalHeight (createCubeStack i ls prompt now) = (\<Sum>layer\<leftarrow>ls. nullish (height layer) 1)"
proof -
  have "totalHeight (createCubeStack i ls prompt now)
          = sum_list (map layerHeight (map (positionLayer (length ls)) (enumerate 0 ls)))"
    by (simp add: createCubeStack_def Let_def foldl_add_sum_list)
  also have "\<dots> = sum_list (map layerHeight ls)"
    by (rule sum_list_positioned) simp
  also have "\<dots> = (\<Sum>layer\<leftarrow>ls. nullish (height layer) 1)"
    by (rule arg_cong [where f = sum_list]) (simp add: layerHeight_def)
  finally show ?thesis .
qed

lemma layers_createCubeStack:
  "layers (createCubeStack i ls prompt now) = map (positionLayer (length ls)) (enumerate 0 ls)"
  by (simp add: createCubeStack_def Let_def)

lemma nth_layers_createCubeStack:
  "k < length ls \<Longrightarrow>
     layers (createCubeStack i ls prompt now) ! k = positionLayer (length ls) (k, ls ! k)"
  by (simp add: layers_createCubeStack nth_enumerate_eq)

text \<open>
  Claim C1. The weight recorded in the physics of the stack returned by
  \<open>createCubeStack\<close> (\<open>stack.physics?.totalWeight\<close>) is the sum over the given layers of
  density times height, where the density is \<open>cubeConfig.physics?.density\<close> or 2.5 when
  absent and the height is the layer's height or 1 when absent.
\<close>

theorem createCubeStack_totalWeight:
  "Option.bind (stack_physics (createCubeStack i ls prompt now)) totalWeight
     = Some (\<Sum>layer\<leftarrow>ls. nullish (Option.bind (cube_physics (cubeConfig layer)) density) (25 / 10)
                            * nullish (height layer) 1)"
proof -
  have "Option.bind (stack_physics (createCubeStack i ls prompt now)) totalWeight
          = Some (sum_list (map (\<lambda>layer. layerDensity layer * layerHeight layer)
                     (map (positionLayer (length ls)) (enumerate 0 ls))))"
    by (simp add: createCubeStack_def Let_def foldl_add_sum_list)
  also have "sum_list (map (\<lambda>layer. layerDensity layer * layerHeight layer)
                     (map (positionLayer (length ls)) (enumerate 0 ls)))
              = sum_list (map (\<lambda>layer. layerDensity layer * layerHeight layer) ls)"
    by (rule sum_list_positioned) simp
  also have "\<dots> = (\<Sum>layer\<leftarrow>ls. nullish (Option.bind (cube_physics (cubeConfig layer)) density) (25 / 10)
                            * nullish (height layer) 1)"
    by (rule arg_cong [where f = sum_list]) (simp add: layerHeight_def layerDensity_def)
  finally show ?thesis .
qed

lemma positionLayer_frame:
  "positionLayer n (k, l) = l \<lparr> position := position (positionLayer n (k, l)),
                                 transitionToNext := transitionToNext (positionLayer n (k, l)) \<rparr>"
  by (simp add: positionLayer_def Let_def)

lemma map_positioned:
  assumes "\<And>p. f (positionLayer n p) = g (snd p)"
  shows "map f (map (positionLayer n) (enumerate 0 ls)) = map g ls"
proof -
  have "map f (map (positionLayer n) (enumerate 0 ls)) = map (\<lambda>p. g (snd p)) (enumerate 0 ls)"
    by (simp add: assms comp_def)
  also have "\<dots> = map g (map snd (enumerate 0 ls))"
    by (simp only: map_map comp_def)
  finally show ?thesis by simp
qed

lemma positionLayer_layer_id [simp]: "layer_id (positionLayer n p) = layer_id (snd p)"
  by (cases p) (simp add: positionLayer_def Let_def)

lemma positionLayer_layer_name [simp]: "layer_name (positionLayer n p) = layer_name (snd p)"
  by (cases p) (simp add: positionLayer_def Let_def)

text \<open>
  Claim C7. \<open>createCubeStack\<close> keeps the layers it is given: the built stack has as many
  layers, in the same order, and each of them has the id, name, cube configuration and
  height of the input layer at the same index; an output layer is the input layer with at
  most its position and its transition replaced.
\<close>

theorem createCubeStack_preserves_layers:
  "length (layers (createCubeStack i ls prompt now)) = length ls \<and>
   map layer_id (layers (createCubeStack i ls prompt now)) = map layer_id ls \<and>
   map layer_name (layers (createCubeStack i ls prompt now)) = map layer_name ls \<and>
   map cubeConfig (layers (createCubeStack i ls prompt now)) = map cubeConfig ls \<and>
   map height (layers (createCubeStack i ls prompt now)) = map height ls \<and>
   list_all2 (\<lambda>out inp. out = inp \<lparr> position := position out,
                                       transitionToNext := transitionToNext out \<rparr>)
     (layers (createCubeStack i ls prompt now)) ls"
proof -
  let ?out = "layers (createCubeStack i ls prompt now)"
  have len: "length ?out = length ls"
    by (simp add: layers_createCubeStack)
  have ids: "map layer_id ?out = map layer_id ls"
    unfolding layers_createCubeStack by (rule map_positioned) simp
  have names: "map layer_name ?out = map layer_name ls"
    unfolding layers_createCubeStack by (rule map_positioned) simp
  have cfgs: "map cubeConfig ?out = map cubeConfig ls"
    unfolding layers_createCubeStack by (rule map_positioned) simp
  have hs: "map height ?out = map height ls"
    unfolding layers_createCubeStack by (rule map_positioned) simp
  have frame: "list_all2 (\<lambda>out inp. out = inp \<lparr> position := position out,
                                       transitionToNext := transitionToNext out \<rparr>) ?out ls"
  proof (rule list_all2_all_nthI)
    show "length ?out = length ls" by (rule len)
  next
    fix k assume "k < length ?out"
    then have k: "k < length ls" by (simp add: len)
    show "?out ! k = (ls ! k) \<lparr> position := position (?out ! k),
                                  transitionToNext := transitionToNext (?out ! k) \<rparr>"
      unfolding nth_layers_createCubeStack [OF k] by (rule positionLayer_frame)
  qed
  from len ids names cfgs hs frame show ?thesis by blast
qed

lemma position_positionLayer [simp]:
  "position (positionLayer n (k, l)) = layerPosition n k"
  by (simp add: positionLayer_def Let_def)

lemma transitionToNext_positionLayer:
  "transitionToNext (positionLayer n (k, l)) =
     (if layerPosition n k = top \<or> layerPosition n k = single then None
      else Some (nullish (transitionToNext l) DEFAULT_STACK_TRANSITION))"
  by (simp add: positionLayer_def Let_def)

text \<open>
  Claim C9. In a stack built by \<open>createCubeStack\<close> a lone layer is \<open>single\<close>; with two or
  more layers the first is \<open>bottom\<close>, the last is \<open>top\<close> and every layer in between is
  \<open>middle\<close>. A layer has a transition exactly when its position is neither \<open>top\<close> nor
  \<open>single\<close>, and the transition is then the one of the input layer, or
  \<open>DEFAULT_STACK_TRANSITION\<close> when the input layer had none.
\<close>

theorem createCubeStack_positions:
  "(length ls = 1 \<longrightarrow> position (layers (createCubeStack i ls prompt now) ! 0) = single) \<and>
   (2 \<le> length ls \<longrightarrow>
      position (layers (createCubeStack i ls prompt now) ! 0) = bottom \<and>
      position (layers (createCubeStack i ls prompt now) ! (length ls - 1)) = top \<and>
      (\<forall>k. 0 < k \<and> k < length ls - 1 \<longrightarrow>
           position (layers (createCubeStack i ls prompt now) ! k) = middle)) \<and>
   (\<forall>k < length ls.
      (transitionToNext (layers (createCubeStack i ls prompt now) ! k) \<noteq> None
         \<longleftrightarrow> position (layers (createCubeStack i ls prompt now) ! k) \<noteq> top \<and>
             position (layers (createCubeStack i ls prompt now) ! k) \<noteq> single) \<and>
      (position (layers (createCubeStack i ls prompt now) ! k) \<noteq> top \<and>
       position (layers (createCubeStack i ls prompt now) ! k) \<noteq> single \<longrightarrow>
         transitionToNext (layers (createCubeStack i ls prompt now) ! k)
           = Some (nullish (transitionToNext (ls ! k)) DEFAULT_STACK_TRANSITION)))"
proof (intro conjI impI allI)
  assume one: "length ls = 1"
  then have "0 < length ls" by simp
  from nth_layers_createCubeStack [OF this] one
  show "position (layers (createCubeStack i ls prompt now) ! 0) = single"
    by (simp add: layerPosition_def)
next
  assume two: "2 \<le> length ls"
  then have "0 < length ls" by linarith
  from nth_layers_createCubeStack [OF this] two
  show "position (layers (createCubeStack i ls prompt now) ! 0) = bottom"
    by (simp add: layerPosition_def)
next
  assume two: "2 \<le> length ls"
  then have "length ls - 1 < length ls" by linarith
  from nth_layers_createCubeStack [OF this] two
  show "position (layers (createCubeStack i ls prompt now) ! (length ls - 1)) = top"
    by (simp add: layerPosition_def)
next
  fix k assume two: "2 \<le> length ls" and k: "0 < k \<and> k < length ls - 1"
  then have "k < length ls" by linarith
  from nth_layers_createCubeStack [OF this] two k
  show "position (layers (createCubeStack i ls prompt now) ! k) = middle"
    by (auto simp add: layerPosition_def)
next
  fix k assume k: "k < length ls"
  show "transitionToNext (layers (createCubeStack i ls prompt now) ! k) \<noteq> None
         \<longleftrightarrow> position (layers (createCubeStack i ls prompt now) ! k) \<noteq> top \<and>
             position (layers (createCubeStack i ls prompt now) ! k) \<noteq> single"
    by (simp add: nth_layers_createCubeStack [OF k] transitionToNext_positionLayer)
next
  fix k assume k: "k < length ls"
    and "position (layers (createCubeStack i ls prompt now) ! k) \<noteq> top \<and>
       position (layers (createCubeStack i ls prompt now) ! k) \<noteq> single"
  then show "transitionToNext (layers (createCubeStack i ls prompt now) ! k)
           = Some (nullish (transitionToNext (ls ! k)) DEFAULT_STACK_TRANSITION)"
    by (simp add: nth_layers_createCubeStack [OF k] transitionToNext_positionLayer)
qed


theorem createCubeStack_positions_witness:
  "(let c = createDefaultCube ''cube-1'' ''2024-01-01T00:00:00.000Z'';
        one = [createStackLayer ''l1'' c (Some bottom) (Some 1)];
        three = [createStackLayer ''l1'' c (Some middle) (Some 1),
                 (createStackLayer ''l2'' c (Some middle) (Some 1)) \<lparr> transitionToNext := None \<rparr>,
                 createStackLayer ''l3'' c (Some middle) (Some 1)];
        s1 = layers (createCubeStack ''test-stack'' one None ''2024-01-01T00:00:00.000Z'');
        s3 = layers (createCubeStack ''test-stack'' three None ''2024-01-01T00:00:00.000Z'')
    in length one = 1 \<and> position (s1 ! 0) = single \<and> transitionToNext (s1 ! 0) = None \<and>
       2 \<le> length three \<and> position (s3 ! 0) = bottom \<and> position (s3 ! (length three - 1)) = top \<and>
       0 < (1::nat) \<and> 1 < length three - 1 \<and> position (s3 ! 1) = middle \<and>
       1 < length three \<and> position (s3 ! 1) \<noteq> top \<and> position (s3 ! 1) \<noteq> single \<and>
       transitionToNext (s3 ! 1) = Some DEFAULT_STACK_TRANSITION \<and>
       transitionToNext (s3 ! 2) = None)"
  using
    createCubeStack_positions [of "[createStackLayer ''l1'' (createDefaultCube ''cube-1'' ''2024-01-01T00:00:00.000Z'') (Some bottom) (Some 1)]"
       "''test-stack''" None "''2024-01-01T00:00:00.000Z''"]
    createCubeStack_positions [of "[createStackLayer ''l1'' (createDefaultCube ''cube-1'' ''2024-01-01T00:00:00.000Z'') (Some middle) (Some 1),
                 (createStackLayer ''l2'' (createDefaultCube ''cube-1'' ''2024-01-01T00:00:00.000Z'') (Some middle) (Some 1)) \<lparr> transitionToNext := None \<rparr>,
                 createStackLayer ''l3'' (createDefaultCube ''cube-1'' ''2024-01-01T00:00:00.000Z'') (Some middle) (Some 1)]"
       "''test-stack''" None "''2024-01-01T00:00:00.000Z''"]
  by (simp add: Let_def createCubeStack_def positionLayer_def layerPosition_def createStackLayer_def
        nullish_def enumerate_eq_zip)

section \<open>Blend factor\<close>

text \<open>
  Claim C2. Take a layer that is not the last one of its stack, has height 1 (given or by
  default) and a transition of blend height \<open>b\<close> (0.2 by default). In the transition
  zone, from \<open>1 - b\<close> upwards, \<open>getLayerBlendFactor\<close> returns the easing curve of the
  transition at \<open>t = (localY - (1 - b)) / b\<close>: \<open>t\<close> for linear, \<open>t\<^sup>2 (3 - 2 t)\<close> for smooth,
  \<open>t\<^sup>2\<close> for ease-in and \<open>1 - (1 - t)\<^sup>2\<close> for ease-out. Below the zone it returns 0.
  The quotient \<open>t\<close> asks for \<open>b \<noteq> 0\<close>.
\<close>

theorem getLayerBlendFactor_easing:
  assumes "0 \<le> k" and "k < int (length (layers stack)) - 1"
    and "transitionToNext (layers stack ! nat k) = Some tr"
    and "nullish (height (layers stack ! nat k)) 1 = 1"
  shows "(1 - nullish (blendHeight tr) (2 / 10) \<le> localY \<and> nullish (blendHeight tr) (2 / 10) \<noteq> 0 \<and>
          easing tr = Some e \<longrightarrow>
            getLayerBlendFactor stack k localY =
              Inr (easingCurve e ((localY - (1 - nullish (blendHeight tr) (2 / 10)))
                                    / nullish (blendHeight tr) (2 / 10)))) \<and>
         (localY < 1 - nullish (blendHeight tr) (2 / 10) \<longrightarrow>
            getLayerBlendFactor stack k localY = Inr 0)"
  using assms
  by (cases e) (auto simp add: getLayerBlendFactor_def Let_def power2_eq_square)

theorem getLayerBlendFactor_easing_witness:
  "(let c = createDefaultCube ''test'' ''2024-01-01T00:00:00.000Z'';
        tr = \<lparr> transition_type = blend, blendHeight = Some (2 / 10), easing = Some linear,
               blendNoise = None, blendGradients = None \<rparr>;
        stack = createCubeStack ''stack''
                  [(createStackLayer ''l1'' c (Some bottom) (Some 1)) \<lparr> transitionToNext := Some tr \<rparr>,
                   createStackLayer ''l2'' c (Some top) (Some 1)]
                  None ''2024-01-01T00:00:00.000Z''
    in (0::int) \<le> 0 \<and> 0 < int (length (layers stack)) - 1 \<and>
       transitionToNext (layers stack ! nat 0) = Some tr \<and>
       nullish (height (layers stack ! nat 0)) 1 = 1 \<and>
       1 - nullish (blendHeight tr) (2 / 10) \<le> 9 / 10 \<and> nullish (blendHeight tr) (2 / 10) \<noteq> 0 \<and>
       easing tr = Some linear \<and>
       getLayerBlendFactor stack 0 (9 / 10) = Inr (1 / 2) \<and>
       5 / 10 < 1 - nullish (blendHeight tr) (2 / 10) \<and>
       getLayerBlendFactor stack 0 (5 / 10) = Inr 0)"
proof -
  let ?c = "createDefaultCube ''test'' ''2024-01-01T00:00:00.000Z''"
  let ?tr = "\<lparr> transition_type = blend, blendHeight = Some (2 / 10), easing = Some linear,
               blendNoise = None, blendGradients = None \<rparr>"
  let ?stack = "createCubeStack ''stack''
                  [(createStackLayer ''l1'' ?c (Some bottom) (Some 1)) \<lparr> transitionToNext := Some ?tr \<rparr>,
                   createStackLayer ''l2'' ?c (Some top) (Some 1)]
                  None ''2024-01-01T00:00:00.000Z''"
  note ev = createCubeStack_def Let_def positionLayer_def layerPosition_def
    createStackLayer_def nullish_def enumerate_eq_zip
  have h1: "(0::int) \<le> 0" by simp
  have h2: "0 < int (length (layers ?stack)) - 1" by (simp add: ev)
  have h3: "transitionToNext (layers ?stack ! nat 0) = Some ?tr" by (simp add: ev)
  have h4: "nullish (height (layers ?stack ! nat 0)) 1 = 1" by (simp add: ev)
  from getLayerBlendFactor_easing [OF h1 h2 h3 h4, of "9 / 10" linear]
       getLayerBlendFactor_easing [OF h1 h2 h3 h4, of "5 / 10" linear]
       h2 h3 h4
  show ?thesis
    by (simp add: ev)
qed

lemma applyEasing_unit_interval:
  assumes "0 \<le> t" and "t \<le> 1"
  shows "0 \<le> applyEasing e t \<and> applyEasing e t \<le> 1"
proof -
  have smooth_hi: "t * t * (3 - 2 * t) \<le> 1"
  proof -
    have "1 - t * t * (3 - 2 * t) = (1 - t) * (1 - t) * (1 + 2 * t)"
      by (simp add: algebra_simps)
    moreover from assms have "0 \<le> (1 - t) * (1 - t) * (1 + 2 * t)" by simp
    ultimately show ?thesis by linarith
  qed
  from assms have smooth_lo: "0 \<le> t * t * (3 - 2 * t)" by simp
  from assms have sq: "t * t \<le> 1" by (simp add: mult_le_one)
  from assms have "(1 - t) * (1 - t) \<le> 1" by (simp add: mult_le_one)
  then have out_lo: "0 \<le> 1 - (1 - t) * (1 - t)" by simp
  show ?thesis
  proof (cases e)
    case None
    with assms show ?thesis by simp
  next
    case (Some c)
    with assms smooth_hi smooth_lo sq out_lo show ?thesis
      by (cases c) simp_all
  qed
qed

text \<open>The last layer and a layer without transition do not blend.\<close>

lemma getLayerBlendFactor_no_blend:
  assumes "0 \<le> k" and "k < int (length (layers stack))"
    and "transitionToNext (layers stack ! nat k) = None \<or> k = int (length (layers stack)) - 1"
  shows "getLayerBlendFactor stack k localY = Inr 0"
  using assms by (auto simp add: getLayerBlendFactor_def Let_def split: option.splits)

text \<open>
  Where the position, divided by the height of the layer, lies in \<open>[0, 1]\<close> and the blend
  height is positive, the blend factor lies in \<open>[0, 1]\<close>. This covers the positions in
  \<open>[0, 1]\<close> of a layer at least one unit high. The bound is one of real arithmetic: the
  doubles of the source can leave the interval by their rounding.
\<close>

lemma getLayerBlendFactor_normalized:
  assumes "0 \<le> k" and "k < int (length (layers stack))"
    and "nullish (height (layers stack ! nat k)) 1 \<noteq> 0"
    and "0 \<le> localY / nullish (height (layers stack ! nat k)) 1"
    and "localY / nullish (height (layers stack ! nat k)) 1 \<le> 1"
    and "\<And>tr. transitionToNext (layers stack ! nat k) = Some tr
            \<Longrightarrow> 0 < nullish (blendHeight tr) (2 / 10)"
  shows "\<exists>v. getLayerBlendFactor stack k localY = Inr v \<and> 0 \<le> v \<and> v \<le> 1"
proof (cases "transitionToNext (layers stack ! nat k)")
  case None
  with assms(1,2) show ?thesis by (simp add: getLayerBlendFactor_no_blend)
next
  case (Some tr)
  define b where "b = nullish (blendHeight tr) (2 / 10)"
  define h where "h = nullish (height (layers stack ! nat k)) 1"
  define t where "t = (localY / h - (1 - b)) / b"
  from assms(6) [OF Some] have b: "0 < b" by (simp add: b_def)
  from assms(3) have h: "h \<noteq> 0" by (simp add: h_def)
  from assms(4,5) have ny: "0 \<le> localY / h" "localY / h \<le> 1"
    by (simp_all add: h_def)
  show ?thesis
  proof (cases "k \<ge> int (length (layers stack)) - 1 \<or> localY / h < 1 - b")
    case True
    with assms(1,2) Some h b show ?thesis
      by (auto simp add: getLayerBlendFactor_def Let_def b_def h_def)
  next
    case False
    then have "1 - b \<le> localY / h" by simp
    with b ny have t: "0 \<le> t" "t \<le> 1"
      by (simp_all add: t_def divide_le_eq)
    from False assms(1,2) Some h b
    have "getLayerBlendFactor stack k localY = Inr (applyEasing (easing tr) t)"
      by (simp add: getLayerBlendFactor_def Let_def b_def h_def t_def)
    with applyEasing_unit_interval [OF t] show ?thesis
      by simp
  qed
qed

lemma getLayerBlendFactor_unit_interval:
  assumes "0 \<le> k" and "k < int (length (layers stack))"
    and "0 \<le> localY" and "localY \<le> 1"
    and "1 \<le> nullish (height (layers stack ! nat k)) 1"
    and "\<And>tr. transitionToNext (layers stack ! nat k) = Some tr
            \<Longrightarrow> 0 < nullish (blendHeight tr) (2 / 10)"
  shows "\<exists>v. getLayerBlendFactor stack k localY = Inr v \<and> 0 \<le> v \<and> v \<le> 1"
proof (rule getLayerBlendFactor_normalized [OF assms(1,2)])
  from assms(5) show "nullish (height (layers stack ! nat k)) 1 \<noteq> 0" by simp
  from assms(3,5) show "0 \<le> localY / nullish (height (layers stack ! nat k)) 1" by simp
  from assms(4,5) show "localY / nullish (height (layers stack ! nat k)) 1 \<le> 1"
    by (simp add: divide_le_eq)
qed (rule assms(6))

text \<open>
  Claim C10. The blend factor is meant to lie between 0 and 1 for every position
  \<open>localY\<close> in \<open>[0, 1]\<close>. It does not for a layer lower than one unit: in the stack of a
  layer of height 0.5 (with the default transition: blend height 0.2, smooth) under a
  second layer, the factor of the first layer at \<open>localY = 1\<close> is \<open>-324\<close>, since the
  position is divided by the height and the progress \<open>(2 - 0.8) / 0.2 = 6\<close> is not
  clamped.
\<close>

theorem getLayerBlendFactor_outside_unit_interval:
  "getLayerBlendFactor
     (createCubeStack ''stack''
        [createStackLayer ''l1'' (createDefaultCube ''test'' ''2024-01-01T00:00:00.000Z'')
           (Some bottom) (Some (5 / 10)),
         createStackLayer ''l2'' (createDefaultCube ''test'' ''2024-01-01T00:00:00.000Z'')
           (Some top) (Some 1)]
        None ''2024-01-01T00:00:00.000Z'')
     0 1 = Inr (- 324)"
  by (simp add: getLayerBlendFactor_def Let_def createCubeStack_def positionLayer_def
        layerPosition_def createStackLayer_def nullish_def enumerate_eq_zip
        DEFAULT_STACK_TRANSITION_def)

section \<open>Shader uniforms\<close>

lemma channelToUniforms_None:
  "channelToUniforms None =
     \<lparr> count = 0, coeffs = replicate 8 [0, 0, 0, 0], freqZ_array = replicate 8 0 \<rparr>"
  by (simp add: channelToUniforms_def)

lemma channelToUniforms_Some:
  "count (channelToUniforms (Some c)) = min (length (coefficients c)) 8"
  "length (coeffs (channelToUniforms (Some c))) = 8"
  "length (freqZ_array (channelToUniforms (Some c))) = 8"
  "i < 8 \<Longrightarrow> coeffs (channelToUniforms (Some c)) ! i =
     (if i < min (length (coefficients c)) 8
      then [amplitude (coefficients c ! i), phase (coefficients c ! i),
            freqX (coefficients c ! i), freqY (coefficients c ! i)]
      else [0, 0, 0, 0])"
  "i < 8 \<Longrightarrow> freqZ_array (channelToUniforms (Some c)) ! i =
     (if i < min (length (coefficients c)) 8 then freqZ (coefficients c ! i) else 0)"
  by (simp_all add: channelToUniforms_def Let_def del: upt.simps)

lemma createEnergyUniforms_channel:
  "uCoeffCount ch (createEnergyUniforms config options) = count (channelToUniforms (configChannel ch config))"
  "uCoeff ch (createEnergyUniforms config options) = coeffs (channelToUniforms (configChannel ch config))"
  "uCoeffFreqZ ch (createEnergyUniforms config options) = freqZ_array (channelToUniforms (configChannel ch config))"
  by (cases ch; simp add: createEnergyUniforms_def Let_def)+

text \<open>
  Claim C6. For every configuration, all options and each of the four channels,
  \<open>createEnergyUniforms\<close> sets the coefficient count of the channel to the number of its
  coefficients, capped at 8, and makes the coefficient array and the \<open>freqZ\<close> array 8 long:
  below the count, entry \<open>i\<close> is \<open>[amplitude, phase, freqX, freqY]\<close> and \<open>freqZ\<close> of
  coefficient \<open>i\<close>; from the count on, it is \<open>[0, 0, 0, 0]\<close> and 0. A missing channel
  gives count 0 and arrays of zeros.
\<close>

theorem createEnergyUniforms_coefficients:
  "(configChannel ch config = None \<longrightarrow>
      uCoeffCount ch (createEnergyUniforms config options) = 0 \<and>
      uCoeff ch (createEnergyUniforms config options) = replicate 8 [0, 0, 0, 0] \<and>
      uCoeffFreqZ ch (createEnergyUniforms config options) = replicate 8 0) \<and>
   (\<forall>c. configChannel ch config = Some c \<longrightarrow>
      uCoeffCount ch (createEnergyUniforms config options) = min (length (coefficients c)) 8 \<and>
      length (uCoeff ch (createEnergyUniforms config options)) = 8 \<and>
      length (uCoeffFreqZ ch (createEnergyUniforms config options)) = 8 \<and>
      (\<forall>i < 8.
         (i < uCoeffCount ch (createEnergyUniforms config options) \<longrightarrow>
            uCoeff ch (createEnergyUniforms config options) ! i =
              [amplitude (coefficients c ! i), phase (coefficients c ! i),
               freqX (coefficients c ! i), freqY (coefficients c ! i)] \<and>
            uCoeffFreqZ ch (createEnergyUniforms config options) ! i = freqZ (coefficients c ! i)) \<and>
         (uCoeffCount ch (createEnergyUniforms config options) \<le> i \<longrightarrow>
            uCoeff ch (createEnergyUniforms config options) ! i = [0, 0, 0, 0] \<and>
            uCoeffFreqZ ch (createEnergyUniforms config options) ! i = 0)))"
  by (auto simp add: createEnergyUniforms_channel channelToUniforms_None channelToUniforms_Some)

theorem createEnergyUniforms_coefficients_witness:
  "(let c1 = \<lparr> amplitude = 4 / 10, phase = 0, freqX = 2, freqY = 0, freqZ = 0 \<rparr>;
        c2 = \<lparr> amplitude = 2 / 10, phase = 1, freqX = 1, freqY = 0, freqZ = 1 \<rparr>;
        ch = \<lparr> dcAmplitude = 3 / 10, dcPhase = 0, coefficients = [c1, c2] \<rparr>;
        config = \<lparr> channelR = Some ch, channelG = None, channelB = None, channelA = None,
                   energyCapacity = Some 200, coherenceLoss = None, fractureThreshold = None \<rparr>;
        u = createEnergyUniforms config noOptions
    in configChannel G config = None \<and> uCoeffCount G u = 0 \<and>
       uCoeff G u = replicate 8 [0, 0, 0, 0] \<and> uCoeffFreqZ G u = replicate 8 0 \<and>
       configChannel R config = Some ch \<and> uCoeffCount R u = 2 \<and>
       (1::nat) < 8 \<and> 1 < uCoeffCount R u \<and>
       uCoeff R u ! 1 = [2 / 10, 1, 1, 0] \<and> uCoeffFreqZ R u ! 1 = 1 \<and>
       (7::nat) < 8 \<and> uCoeffCount R u \<le> 7 \<and>
       uCoeff R u ! 7 = [0, 0, 0, 0] \<and> uCoeffFreqZ R u ! 7 = 0)"
  using
    createEnergyUniforms_coefficients [of G
      "\<lparr> channelR = Some \<lparr> dcAmplitude = 3 / 10, dcPhase = 0, coefficients =
           [\<lparr> amplitude = 4 / 10, phase = 0, freqX = 2, freqY = 0, freqZ = 0 \<rparr>,
            \<lparr> amplitude = 2 / 10, phase = 1, freqX = 1, freqY = 0, freqZ = 1 \<rparr>] \<rparr>,
         channelG = None, channelB = None, channelA = None,
         energyCapacity = Some 200, coherenceLoss = None, fractureThreshold = None \<rparr>" noOptions]
    createEnergyUniforms_coefficients [of R
      "\<lparr> channelR = Some \<lparr> dcAmplitude = 3 / 10, dcPhase = 0, coefficients =
           [\<lparr> amplitude = 4 / 10, phase = 0, freqX = 2, freqY = 0, freqZ = 0 \<rparr>,
            \<lparr> amplitude = 2 / 10, phase = 1, freqX = 1, freqY = 0, freqZ = 1 \<rparr>] \<rparr>,
         channelG = None, channelB = None, channelA = None,
         energyCapacity = Some 200, coherenceLoss = None, fractureThreshold = None \<rparr>" noOptions]
  by (simp add: Let_def)

section \<open>Generators\<close>

lemma distinct_colors: "distinct colors"
  by (simp add: colors_def)

lemma distinct_chars: "distinct chars"
  by (simp add: chars_def)

lemma elementAt_eq_iff:
  assumes "distinct xs"
    and "0 \<le> i" and "i < int (length xs)" and "0 \<le> j" and "j < int (length xs)"
  shows "elementAt xs i = elementAt xs j \<longleftrightarrow> i = j"
proof -
  from assms(2-5) have "nat i < length xs" "nat j < length xs" by linarith+
  with assms show ?thesis
    by (simp add: elementAt_def nth_eq_iff_index_eq nat_eq_iff)
qed

lemma foldl_append_concat: "foldl (\<lambda>code i. code @ f i) acc is = acc @ concat (map f is)"
  by (induction "is" arbitrary: acc) simp_all

lemma generateSessionCode_indices:
  assumes "\<forall>i<6. 0 \<le> randomIndex multiply (random i) chars \<and>
                  randomIndex multiply (random i) chars < int (length chars)"
  shows "generateSessionCode multiply random
           = map (\<lambda>i. chars ! nat (randomIndex multiply (random i) chars)) [0..<6]"
proof -
  have "map (\<lambda>i. appended (elementAt chars (randomIndex multiply (random i) chars))) [0..<6]
          = map (\<lambda>i. [chars ! nat (randomIndex multiply (random i) chars)]) [0..<6]"
  proof (rule map_cong [OF refl])
    fix i assume "i \<in> set [0..<6]"
    with assms have "0 \<le> randomIndex multiply (random i) chars"
      and "randomIndex multiply (random i) chars < int (length chars)" by simp_all
    then show "appended (elementAt chars (randomIndex multiply (random i) chars))
            = [chars ! nat (randomIndex multiply (random i) chars)]"
      by (simp add: appended_def elementAt_def)
  qed
  then have "generateSessionCode multiply random
               = concat (map (\<lambda>i. [chars ! nat (randomIndex multiply (random i) chars)]) [0..<6])"
    by (simp only: generateSessionCode_def foldl_append_concat append_Nil)
  also have "\<dots> = map (\<lambda>i. chars ! nat (randomIndex multiply (random i) chars)) [0..<6]"
    by (induction "[0..<6::nat]") (simp_all add: concat_map_singleton)
  finally show ?thesis .
qed

text \<open>The decimal text of a number determines the number.\<close>

lemma digit_eq_iff:
  assumes "a < 10" and "b < 10"
  shows "''0123456789'' ! a = ''0123456789'' ! b \<longleftrightarrow> a = b"
  using assms by (simp add: nth_eq_iff_index_eq)

lemma decimal_not_Nil: "decimal n \<noteq> []"
  by (subst decimal.simps) simp

lemma decimal_digits: "c \<in> set (decimal n) \<Longrightarrow> c \<in> set ''0123456789''"
proof (induction n arbitrary: c rule: decimal.induct)
  case (1 n)
  show ?case
  proof (cases "n < 10")
    case True
    with "1.prems" have "c = ''0123456789'' ! n" by (simp add: decimal.simps [of n])
    moreover from True have "n < length ''0123456789''" by simp
    then have "''0123456789'' ! n \<in> set ''0123456789''" by (rule nth_mem)
    ultimately show ?thesis by simp
  next
    case False
    with "1.prems" have "c \<in> set (decimal (n div 10)) \<or> c = ''0123456789'' ! (n mod 10)"
      by (auto simp add: decimal.simps [of n])
    then show ?thesis
    proof
      assume "c \<in> set (decimal (n div 10))"
      with "1.IH" False show ?thesis by simp
    next
      have "n mod 10 < length ''0123456789''" by simp
      then have "''0123456789'' ! (n mod 10) \<in> set ''0123456789''" by (rule nth_mem)
      moreover assume "c = ''0123456789'' ! (n mod 10)"
      ultimately show ?thesis by simp
    qed
  qed
qed

lemma decimal_inject: "decimal a = decimal b \<Longrightarrow> a = b"
proof (induction a arbitrary: b rule: decimal.induct)
  case (1 a)
  show ?case
  proof (cases "a < 10")
    case a: True
    show ?thesis
    proof (cases "b < 10")
      case True
      with a "1.prems" show ?thesis
        by (simp add: decimal.simps [of a] decimal.simps [of b] digit_eq_iff)
    next
      case False
      with a "1.prems" decimal_not_Nil [of "b div 10"] show ?thesis
        by (simp add: decimal.simps [of a] decimal.simps [of b])
    qed
  next
    case a: False
    show ?thesis
    proof (cases "b < 10")
      case True
      with a "1.prems" decimal_not_Nil [of "a div 10"] show ?thesis
        by (simp add: decimal.simps [of a] decimal.simps [of b])
    next
      case False
      with a "1.prems" have eq: "decimal (a div 10) = decimal (b div 10)"
        and d: "''0123456789'' ! (a mod 10) = ''0123456789'' ! (b mod 10)"
        by (simp_all add: decimal.simps [of a] decimal.simps [of b])
      from "1.IH" [OF a eq] have "a div 10 = b div 10" .
      moreover from d have "a mod 10 = b mod 10" by (simp add: digit_eq_iff)
      ultimately show ?thesis by (metis div_mult_mod_eq)
    qed
  qed
qed


lemma no_dash_in_decimal: "CHR ''-'' \<notin> set (decimal n)"
proof
  assume "CHR ''-'' \<in> set (decimal n)"
  then have "CHR ''-'' \<in> set ''0123456789''" by (rule decimal_digits)
  then show False by simp
qed

lemma split_at_dash:
  assumes "CHR ''-'' \<notin> set d1" and "CHR ''-'' \<notin> set d2"
    and "d1 @ CHR ''-'' # t1 = d2 @ CHR ''-'' # t2"
  shows "d1 = d2 \<and> t1 = t2"
  using assms
proof (induction d1 arbitrary: d2)
  case Nil
  then show ?case by (cases d2) auto
next
  case (Cons c d1)
  then show ?case by (cases d2) auto
qed

lemma numberToString_dash_inject:
  assumes "numberToString a @ ''-'' @ t1 = numberToString b @ ''-'' @ t2"
  shows "a = b \<and> t1 = t2"
proof -
  have head: "hd (decimal n) \<noteq> CHR ''-''" for n
    using no_dash_in_decimal [of n] decimal_not_Nil [of n] hd_in_set [of "decimal n"] by metis
  consider (pos) "0 \<le> a" "0 \<le> b" | (neg) "a < 0" "b < 0"
    | (mixed1) "a < 0" "0 \<le> b" | (mixed2) "0 \<le> a" "b < 0"
    by linarith
  then show ?thesis
  proof cases
    case pos
    with assms have "decimal (nat a) @ CHR ''-'' # t1 = decimal (nat b) @ CHR ''-'' # t2"
      by (simp add: numberToString_def)
    from split_at_dash [OF no_dash_in_decimal no_dash_in_decimal this]
    have "decimal (nat a) = decimal (nat b)" and t: "t1 = t2" by simp_all
    then have "nat a = nat b" by (simp add: decimal_inject)
    with pos t show ?thesis by simp
  next
    case neg
    with assms have "decimal (nat (- a)) @ CHR ''-'' # t1 = decimal (nat (- b)) @ CHR ''-'' # t2"
      by (simp add: numberToString_def)
    from split_at_dash [OF no_dash_in_decimal no_dash_in_decimal this]
    have "decimal (nat (- a)) = decimal (nat (- b))" and t: "t1 = t2" by simp_all
    then have "nat (- a) = nat (- b)" by (simp add: decimal_inject)
    with neg t show ?thesis by simp
  next
    case mixed1
    with assms have "CHR ''-'' # decimal (nat (- a)) @ CHR ''-'' # t1
                       = decimal (nat b) @ CHR ''-'' # t2"
      by (simp add: numberToString_def)
    then have "hd (decimal (nat b) @ CHR ''-'' # t2) = CHR ''-''" by (metis list.sel(1))
    with decimal_not_Nil [of "nat b"] head [of "nat b"] show ?thesis by simp
  next
    case mixed2
    with assms have "decimal (nat a) @ CHR ''-'' # t1
                       = CHR ''-'' # decimal (nat (- b)) @ CHR ''-'' # t2"
      by (simp add: numberToString_def)
    then have "hd (decimal (nat a) @ CHR ''-'' # t1) = CHR ''-''" by (metis list.sel(1))
    with decimal_not_Nil [of "nat a"] head [of "nat a"] show ?thesis by simp
  qed
qed

text \<open>
  Claim C4, amended. The generators are not deterministic: each is a function of the
  values that \<open>Math.random()\<close> and \<open>Date.now()\<close> return during the call. Where the
  indices \<open>Math.floor(Math.random() * colors.length)\<close> that two calls of
  \<open>generateParticipantColor\<close> compute lie in the palette, the calls return the same
  colour exactly when the indices are equal. Where the indices
  \<open>Math.floor(Math.random() * chars.length)\<close> that two calls of \<open>generateSessionCode\<close>
  compute in their six rounds lie in the alphabet, the calls return the same code exactly
  when the indices are equal round by round. Two calls of \<open>generateActionId\<close> return the
  same identifier exactly when they read the same clock value and the texts of their
  draws agree on the characters 2 to 8.
\<close>

theorem generators_depend_on_draws:
  assumes "0 \<le> randomIndex multiply r1 colors"
    and "randomIndex multiply r1 colors < int (length colors)"
    and "0 \<le> randomIndex multiply r2 colors"
    and "randomIndex multiply r2 colors < int (length colors)"
    and "\<forall>i<6. 0 \<le> randomIndex multiply (d1 i) chars \<and>
                  randomIndex multiply (d1 i) chars < int (length chars)"
    and "\<forall>i<6. 0 \<le> randomIndex multiply (d2 i) chars \<and>
                  randomIndex multiply (d2 i) chars < int (length chars)"
  shows "(generateParticipantColor multiply r1 = generateParticipantColor multiply r2
            \<longleftrightarrow> randomIndex multiply r1 colors = randomIndex multiply r2 colors) \<and>
         (generateSessionCode multiply d1 = generateSessionCode multiply d2
            \<longleftrightarrow> (\<forall>i<6. randomIndex multiply (d1 i) chars = randomIndex multiply (d2 i) chars)) \<and>
         (generateActionId now1 s1 = generateActionId now2 s2
            \<longleftrightarrow> now1 = now2 \<and> substring 2 9 s1 = substring 2 9 s2)"
proof (intro conjI)
  show "generateParticipantColor multiply r1 = generateParticipantColor multiply r2
          \<longleftrightarrow> randomIndex multiply r1 colors = randomIndex multiply r2 colors"
    unfolding generateParticipantColor_def
    by (rule elementAt_eq_iff [OF distinct_colors assms(1-4)])
next
  have "generateSessionCode multiply d1 = generateSessionCode multiply d2
          \<longleftrightarrow> (\<forall>i<6. chars ! nat (randomIndex multiply (d1 i) chars)
                         = chars ! nat (randomIndex multiply (d2 i) chars))"
    by (simp only: generateSessionCode_indices [OF assms(5)]
          generateSessionCode_indices [OF assms(6)] map_eq_conv) auto
  also have "\<dots> \<longleftrightarrow> (\<forall>i<6. randomIndex multiply (d1 i) chars = randomIndex multiply (d2 i) chars)"
  proof (intro all_cong1 imp_cong refl)
    fix i :: nat assume i: "i < 6"
    with assms(5,6)
    have a: "0 \<le> randomIndex multiply (d1 i) chars"
            "randomIndex multiply (d1 i) chars < int (length chars)"
      and b: "0 \<le> randomIndex multiply (d2 i) chars"
             "randomIndex multiply (d2 i) chars < int (length chars)"
      by simp_all
    from elementAt_eq_iff [OF distinct_chars a b] a b
    show "chars ! nat (randomIndex multiply (d1 i) chars)
            = chars ! nat (randomIndex multiply (d2 i) chars)
          \<longleftrightarrow> randomIndex multiply (d1 i) chars = randomIndex multiply (d2 i) chars"
      by (simp add: elementAt_def)
  qed
  finally show "generateSessionCode multiply d1 = generateSessionCode multiply d2
          \<longleftrightarrow> (\<forall>i<6. randomIndex multiply (d1 i) chars = randomIndex multiply (d2 i) chars)" .
next
  show "generateActionId now1 s1 = generateActionId now2 s2
          \<longleftrightarrow> now1 = now2 \<and> substring 2 9 s1 = substring 2 9 s2"
    unfolding generateActionId_def
    using numberToString_dash_inject [of now1 "substring 2 9 s1" now2 "substring 2 9 s2"]
    by auto
qed

text \<open>
  The draws of the examples are dyadic, and their products with 10 and with 31 are
  doubles: the multiplication of the runtime is the exact one at these draws.
\<close>

theorem generators_depend_on_draws_witness:
  "generateParticipantColor (*) (1 / 16) = generateParticipantColor (*) (1 / 32) \<and>
   randomIndex (*) (1 / 16) colors = 0 \<and> randomIndex (*) (1 / 32) colors = 0 \<and>
   generateSessionCode (*) (\<lambda>i. 0) \<noteq> generateSessionCode (*) (\<lambda>i. 1 / 2) \<and>
   randomIndex (*) 0 chars = 0 \<and> randomIndex (*) (1 / 2) chars = 15 \<and>
   generateActionId 1700000000000 ''0.4fzyo82mvyr'' = generateActionId 1700000000000 ''0.4fzyo82'' \<and>
   generateActionId 1700000000000 ''0.4fzyo82mvyr'' \<noteq> generateActionId 1700000000001 ''0.4fzyo82mvyr''"
proof -
  have c: "length colors = 10" by (simp add: colors_def)
  have l: "length chars = 31" by (simp add: chars_def)
  have h1: "0 \<le> randomIndex (*) (1 / 16) colors"
    and h2: "randomIndex (*) (1 / 16) colors < int (length colors)"
    and h3: "0 \<le> randomIndex (*) (1 / 32) colors"
    and h4: "randomIndex (*) (1 / 32) colors < int (length colors)"
    by (simp_all add: randomIndex_def c)
  have h5: "\<forall>i<6. 0 \<le> randomIndex (*) ((\<lambda>i. 0) i) chars \<and>
                    randomIndex (*) ((\<lambda>i. 0) i) chars < int (length chars)"
    by (simp add: randomIndex_def l)
  have h6: "\<forall>i<6. 0 \<le> randomIndex (*) ((\<lambda>i. 1 / 2) i) chars \<and>
                    randomIndex (*) ((\<lambda>i. 1 / 2) i) chars < int (length chars)"
    by (simp add: randomIndex_def l)
  have s: "substring 2 9 ''0.4fzyo82mvyr'' = substring 2 9 ''0.4fzyo82''"
    by (simp add: substring_def)
  from generators_depend_on_draws [OF h1 h2 h3 h4 h5 h6,
         of 1700000000000 "''0.4fzyo82mvyr''" 1700000000000 "''0.4fzyo82''"]
       generators_depend_on_draws [OF h1 h2 h3 h4 h5 h6,
         of 1700000000000 "''0.4fzyo82mvyr''" 1700000000001 "''0.4fzyo82mvyr''"] s
  show ?thesis
    by (simp add: randomIndex_def c l exI [of _ 0])
qed

text \<open>
  Claim C4 as stated fails: two calls whose draws are \<open>0\<close> and \<open>0.5\<close> return different
  colours (\<open>#FF6B6B\<close> and \<open>#DDA0DD\<close>) and different codes (\<open>AAAAAA\<close> and \<open>SSSSSS\<close>), and two
  calls a millisecond apart return different identifiers.
\<close>

theorem generators_not_deterministic:
  "generateParticipantColor (*) 0 \<noteq> generateParticipantColor (*) (1 / 2) \<and>
   generateSessionCode (*) (\<lambda>i. 0) \<noteq> generateSessionCode (*) (\<lambda>i. 1 / 2) \<and>
   generateActionId 1700000000000 ''0.4fzyo82mvyr''
     \<noteq> generateActionId 1700000000001 ''0.4fzyo82mvyr''"
  by (simp add: generateParticipantColor_def randomIndex_def elementAt_def colors_def
        generateSessionCode_def chars_def appended_def upt_rec
        generateActionId_def numberToString_def substring_def decimal.simps)

section \<open>Type guards\<close>

text \<open>
  Claim C5. For every action, \<open>isCubeModificationAction\<close> holds exactly when its type is
  \<open>cube_create\<close>, \<open>cube_update\<close> or \<open>cube_delete\<close>, and \<open>isPresenceAction\<close> exactly when
  it is \<open>cursor_move\<close>, \<open>participant_join\<close> or \<open>participant_leave\<close>; the guards never
  hold together, and neither holds of a \<open>cube_select\<close> or \<open>session_settings_update\<close>
  action.
\<close>

theorem type_guards_partition:
  "(isCubeModificationAction a \<longleftrightarrow>
      action_type a = cube_create \<or> action_type a = cube_update \<or> action_type a = cube_delete) \<and>
   (isPresenceAction a \<longleftrightarrow>
      action_type a = cursor_move \<or> action_type a = participant_join \<or>
      action_type a = participant_leave) \<and>
   \<not> (isCubeModificationAction a \<and> isPresenceAction a) \<and>
   (action_type a = cube_select \<or> action_type a = session_settings_update \<longrightarrow>
      \<not> isCubeModificationAction a \<and> \<not> isPresenceAction a)"
  by (cases "action_type a")
     (simp_all add: isCubeModificationAction_def isPresenceAction_def array_includes_def)

theorem type_guards_partition_witness:
  "(let a = \<lparr> action_id = ''action-1'', action_type = cube_select, participantId = ''p-1'',
               timestamp = ''2024-01-01T00:00:00.000Z'', sessionId = ''s-1'',
               payload = Some ''cube-1'' \<rparr>
    in (action_type a = cube_select \<or> action_type a = session_settings_update) \<and>
       \<not> isCubeModificationAction a \<and> \<not> isPresenceAction a)"
  using type_guards_partition [of "\<lparr> action_id = ''action-1'', action_type = cube_select,
      participantId = ''p-1'', timestamp = ''2024-01-01T00:00:00.000Z'', sessionId = ''s-1'',
      payload = Some ''cube-1'' \<rparr>"]
  by (simp add: Let_def)

section \<open>Sessions\<close>

lemma foldl_update_fresh:
  "distinct (map fst (ys @ xs)) \<Longrightarrow>
     foldl (\<lambda>m (k, v). AList.update k v m) ys xs = ys @ xs"
proof (induction xs arbitrary: ys)
  case Nil
  then show ?case by simp
next
  case (Cons p xs)
  obtain k v where p: "p = (k, v)" by (cases p)
  from Cons.prems p have "k \<notin> fst ` set ys" by auto
  then have upd: "AList.update k v ys = ys @ [(k, v)]"
    by (induction ys) auto
  from Cons.prems p have "distinct (map fst ((ys @ [(k, v)]) @ xs))" by simp
  from Cons.IH [OF this] upd p show ?case by simp
qed

lemma impl_of_foldl_update:
  "DAList.impl_of (foldl (\<lambda>m (k, v). DAList.update k v m) m xs)
     = foldl (\<lambda>m (k, v). AList.update k v m) (DAList.impl_of m) xs"
  by (induction xs arbitrary: m) (auto simp add: DAList.update.rep_eq)

text \<open>A map built from the entries of a map is that map, entries and order.\<close>

lemma newMap_entries: "newMap (entries m) = m"
proof -
  have "DAList.impl_of (newMap (entries m)) = [] @ DAList.impl_of m"
    unfolding newMap_def entries_def impl_of_foldl_update DAList.empty.rep_eq
    by (rule foldl_update_fresh) simp
  then show ?thesis by (simp add: DAList.alist_eq_iff)
qed

text \<open>
  Claim C8. Deserialising a serialised session gives the session back: the same id, code,
  settings, owner, creation and modification times, and maps of participants and of cubes
  with the same entries in the same order.
\<close>

theorem deserialize_serialize:
  "session_id (deserializeSession (serializeSession s)) = session_id s \<and>
   code (deserializeSession (serializeSession s)) = code s \<and>
   settings (deserializeSession (serializeSession s)) = settings s \<and>
   ownerId (deserializeSession (serializeSession s)) = ownerId s \<and>
   createdAt (deserializeSession (serializeSession s)) = createdAt s \<and>
   modifiedAt (deserializeSession (serializeSession s)) = modifiedAt s \<and>
   entries (participants (deserializeSession (serializeSession s))) = entries (participants s) \<and>
   entries (cubes (deserializeSession (serializeSession s))) = entries (cubes s) \<and>
   deserializeSession (serializeSession s) = s"
  by (simp add: deserializeSession_def serializeSession_def newMap_entries)

section \<open>The examples of the test suites\<close>

text \<open>
  The model computes what the tests of the repository expect of stacks, blend factors,
  shader uniforms and type guards.
\<close>

lemmas evaluate_stack =
  createCubeStack_def Let_def positionLayer_def layerPosition_def createStackLayer_def
  layerHeight_def layerDensity_def nullish_def enumerate_eq_zip DEFAULT_STACK_PHYSICS_def

lemma test_total_height:
  "totalHeight (createCubeStack ''test-stack''
      [createStackLayer ''l1'' c1 (Some bottom) (Some 1),
       createStackLayer ''l2'' c2 (Some middle) (Some 2),
       createStackLayer ''l3'' c3 (Some top) (Some (15 / 10))] None now) = 45 / 10"
  by (simp add: evaluate_stack)

lemma test_total_weight:
  "Option.bind (stack_physics (createCubeStack ''test-stack''
      [createStackLayer ''l1''
         (c1 \<lparr> cube_physics := Some \<lparr> material = Some stone, density = Some 3,
                                        break_pattern = None \<rparr> \<rparr>) (Some bottom) (Some 1),
       createStackLayer ''l2''
         (c2 \<lparr> cube_physics := Some \<lparr> material = Some stone, density = Some 2,
                                        break_pattern = None \<rparr> \<rparr>) (Some top) (Some 1)]
      None now)) totalWeight = Some 5"
  by (simp add: evaluate_stack)

lemma test_blend_factor_linear:
  fixes c :: SpectralCube and now :: string
  defines "stack \<equiv> createCubeStack ''stack''
     [(createStackLayer ''l1'' c (Some bottom) (Some 1))
        \<lparr> transitionToNext := Some \<lparr> transition_type = blend, blendHeight = Some (2 / 10),
                                       easing = Some linear, blendNoise = None,
                                       blendGradients = None \<rparr> \<rparr>,
      createStackLayer ''l2'' c (Some top) (Some 1)] None now"
  shows "getLayerBlendFactor stack 0 0 = Inr 0"
    and "getLayerBlendFactor stack 0 (5 / 10) = Inr 0"
    and "getLayerBlendFactor stack 0 (9 / 10) = Inr (1 / 2)"
    and "getLayerBlendFactor stack 0 1 = Inr 1"
    and "getLayerBlendFactor stack 1 (9 / 10) = Inr 0"
    and "getLayerBlendFactor stack 2 (9 / 10) = Inl TypeError"
  by (simp_all add: stack_def getLayerBlendFactor_def evaluate_stack)

lemma test_blend_factor_smooth:
  "getLayerBlendFactor (createCubeStack ''stack''
     [(createStackLayer ''l1'' c (Some bottom) (Some 1))
        \<lparr> transitionToNext := Some \<lparr> transition_type = blend, blendHeight = Some (4 / 10),
                                       easing = Some smooth_easing, blendNoise = None,
                                       blendGradients = None \<rparr> \<rparr>,
      createStackLayer ''l2'' c (Some top) (Some 1)] None now) 0 (8 / 10) = Inr (1 / 2)"
  by (simp add: getLayerBlendFactor_def evaluate_stack)

lemma sharp_transition_not_finite:
  "getLayerBlendFactor (createCubeStack ''stack''
     [(createStackLayer ''l1'' c (Some bottom) (Some 1))
        \<lparr> transitionToNext := Some \<lparr> transition_type = hard_transition, blendHeight = Some 0,
                                       easing = Some linear, blendNoise = None,
                                       blendGradients = None \<rparr> \<rparr>,
      createStackLayer ''l2'' c (Some top) (Some 1)] None now) 0 1 = Inl NonFinite"
  by (simp add: getLayerBlendFactor_def evaluate_stack)

lemma test_uniforms_empty_config:
  fixes u :: EnergyUniforms
  defines "u \<equiv> createEnergyUniforms
     \<lparr> channelR = None, channelG = None, channelB = None, channelA = None,
       energyCapacity = None, coherenceLoss = None, fractureThreshold = None \<rparr> noOptions"
  shows "uTime u = 0" and "uEnergyScale u = 1"
    and "uCoeffCountR u = 0" and "uCoeffCountG u = 0"
    and "uCoeffCountB u = 0" and "uCoeffCountA u = 0"
    and "uChannelMask u = 15" and "uVisualizationMode u = 0"
  by (simp_all add: u_def createEnergyUniforms_def Let_def noOptions_def nullish_def
        channelToUniforms_def ChannelMask_RGBA_def)

lemma test_uniforms_coefficients:
  fixes u :: EnergyUniforms and p q :: real
  defines "u \<equiv> createEnergyUniforms
     \<lparr> channelR = Some \<lparr> dcAmplitude = 8 / 10, dcPhase = p, coefficients =
         [\<lparr> amplitude = 5 / 10, phase = 0, freqX = 1, freqY = 0, freqZ = 0 \<rparr>,
          \<lparr> amplitude = 3 / 10, phase = q, freqX = 0, freqY = 1, freqZ = 2 \<rparr>] \<rparr>,
       channelG = None, channelB = None, channelA = None,
       energyCapacity = None, coherenceLoss = None, fractureThreshold = None \<rparr> noOptions"
  shows "uCoeffCountR u = 2"
    and "uDCAmplitude u ! 0 = 8 / 10" and "uDCPhase u ! 0 = p"
    and "uCoeffR u ! 0 = [5 / 10, 0, 1, 0]" and "uCoeffR u ! 1 = [3 / 10, q, 0, 1]"
    and "uCoeffRFreqZ u ! 0 = 0" and "uCoeffRFreqZ u ! 1 = 2"
  by (simp_all add: u_def createEnergyUniforms_def Let_def noOptions_def nullish_def
        channelToUniforms_def upt_rec)

lemma nine_coefficients_capped:
  "count (channelToUniforms (Some \<lparr> dcAmplitude = a, dcPhase = p,
                                      coefficients = replicate 9 c \<rparr>)) = 8"
  "coeffs (channelToUniforms (Some \<lparr> dcAmplitude = a, dcPhase = p,
                                       coefficients = replicate 9 c \<rparr>))
     = replicate 8 [amplitude c, phase c, freqX c, freqY c]"
  by (simp_all add: channelToUniforms_def Let_def upt_rec numeral_nat)

lemma test_type_guards:
  "isCubeModificationAction (a \<lparr> action_type := cube_create \<rparr>)"
  "\<not> isCubeModificationAction (a \<lparr> action_type := cursor_move \<rparr>)"
  "isPresenceAction (a \<lparr> action_type := cursor_move \<rparr>)"
  "isPresenceAction (a \<lparr> action_type := participant_join \<rparr>)"
  "\<not> isPresenceAction (a \<lparr> action_type := cube_create \<rparr>)"
  by (simp_all add: isCubeModificationAction_def isPresenceAction_def array_includes_def)

end
